theory Spec2Isabelle
  imports Complex_Main "HOL-Library.Sublist"
begin

section \<open>The item and user API over a relational store\<close>

text \<open>
  The repository holds two scripts. \<^verbatim>\<open>api_tutorial.py\<close> serves items and users out of an
  SQLite file; \<^verbatim>\<open>test.py\<close> declares the same routes with handlers that only echo their
  arguments. Each handler of \<^verbatim>\<open>api_tutorial.py\<close> opens a connection, runs one statement,
  commits when it wrote, and closes. The store is modelled as a value that a handler takes
  and returns; an exception is the left summand of the handler's result.

  Modelling decisions, where the source leaves the meaning to the libraries it calls:
  \<^item> a Python \<^verbatim>\<open>str\<close> is a \<^typ>\<open>string\<close>, one \<^typ>\<open>char\<close> per character, for the
    characters U+0000 to U+00FF; a character below U+0080 is one byte of UTF-8, the
    others are two;
  \<^item> a Python \<^verbatim>\<open>float\<close> is NaN, an infinity, or the real number it denotes;
  \<^item> a Python \<^verbatim>\<open>int\<close> is an \<^typ>\<open>int\<close>; binding one to a statement parameter
    raises \<^verbatim>\<open>OverflowError\<close> outside the signed 64-bit range of the store's INTEGER type;
  \<^item> a table is the list of its rows as the tuples \<^verbatim>\<open>fetchall\<close> returns, together with
    the counter that \<^verbatim>\<open>AUTOINCREMENT\<close> keeps for it;
  \<^item> failures of the store's environment (a full disk, a locked or damaged file, an
    exhausted identifier counter) are outside the model.
\<close>

subsection \<open>Numbers\<close>

text \<open>
  A \<^verbatim>\<open>REAL\<close> value of the store is a real number or an infinity. A Python \<^verbatim>\<open>float\<close> is
  one of these or NaN; the store keeps no NaN: bound to a parameter it becomes NULL.
\<close>

datatype ext_real = Finite real | PosInf | NegInf

datatype float = Num ext_real | NaN

fun ext_le :: "ext_real \<Rightarrow> ext_real \<Rightarrow> bool" where
  "ext_le NegInf y = True"
| "ext_le x PosInf = True"
| "ext_le (Finite a) (Finite b) = (a \<le> b)"
| "ext_le x y = False"

definition bind_float :: "float \<Rightarrow> ext_real option" where
  "bind_float x = (case x of Num v \<Rightarrow> Some v | NaN \<Rightarrow> None)"

subsection \<open>Request and response models\<close>

text \<open>The two \<^verbatim>\<open>BaseModel\<close> classes; in \<^verbatim>\<open>test.py\<close> they have no \<^verbatim>\<open>id\<close> field.\<close>

record Item =
  id_item :: "int option"
  name_item :: string
  price_item :: float
  is_offer_item :: "bool option"

record User =
  id_user :: "int option"
  username :: string
  email :: string
  full_name :: "string option"

datatype error =
    HTTPException (status_code: nat) (detail: string)
  | OverflowError
  | IntegrityError
  | OperationalError

subsection \<open>The store\<close>

text \<open>
  A row of \<^verbatim>\<open>items(id, name, price, is_offer)\<close> and of
  \<^verbatim>\<open>users(id, username, email, full_name)\<close>. A Python \<^verbatim>\<open>bool\<close> is stored as the
  integer 1 or 0, \<^verbatim>\<open>None\<close> as NULL. \<^verbatim>\<open>price\<close> is declared \<^verbatim>\<open>REAL NOT NULL\<close>.
\<close>

type_synonym item_row = "int \<times> string \<times> ext_real \<times> int option"
type_synonym user_row = "int \<times> string \<times> string \<times> string option"

record store =
  items :: "item_row list"
  items_seq :: int
  users :: "user_row list"
  users_seq :: int

text \<open>A file in which both tables have just been created.\<close>

definition empty_store :: store where
  "empty_store = \<lparr>items = [], items_seq = 0, users = [], users_seq = 0\<rparr>"

text \<open>
  A connection holds the committed contents of the file and the contents its own
  statements have produced. \<^verbatim>\<open>commit\<close> publishes the latter; \<^verbatim>\<open>close\<close> drops whatever was
  not committed.
\<close>

record connection =
  disk :: store
  work :: store

definition connect :: "store \<Rightarrow> connection" where
  "connect s = \<lparr>disk = s, work = s\<rparr>"

definition commit :: "connection \<Rightarrow> connection" where
  "commit c = c\<lparr>disk := work c\<rparr>"

definition close :: "connection \<Rightarrow> store" where
  "close c = disk c"

text \<open>
  \<^verbatim>\<open>INTEGER PRIMARY KEY AUTOINCREMENT\<close>: the new row's id is one more than the largest id
  the table has ever held, which is the larger of the table's counter and of the ids
  present.
\<close>

definition next_rowid :: "int \<Rightarrow> int list \<Rightarrow> int" where
  "next_rowid seq ids = fold max ids seq + 1"

definition adapt_bool :: "bool option \<Rightarrow> int option" where
  "adapt_bool b = map_option (\<lambda>v. if v then 1 else 0) b"

text \<open>Binding a Python \<^verbatim>\<open>int\<close> to a \<^verbatim>\<open>?\<close> of a statement.\<close>

definition bind_int :: "int \<Rightarrow> error + int" where
  "bind_int i = (if - (2 ^ 63) \<le> i \<and> i < 2 ^ 63 then Inr i else Inl OverflowError)"

text \<open>
  \<^verbatim>\<open>INSERT INTO items (name, price, is_offer) VALUES (?, ?, ?)\<close>; returns \<^verbatim>\<open>lastrowid\<close>.
  A NaN price arrives as NULL and the statement raises \<^verbatim>\<open>IntegrityError\<close>.
\<close>

definition insert_item ::
  "connection \<Rightarrow> string \<times> float \<times> bool option \<Rightarrow> error + (int \<times> connection)" where
  "insert_item c v =
     (case v of (n, p, o') \<Rightarrow>
        (case bind_float p of
           None \<Rightarrow> Inl IntegrityError
         | Some x \<Rightarrow>
             let w = work c;
                 i = next_rowid (items_seq w) (map fst (items w))
             in Inr (i, c\<lparr>work := w\<lparr>items := items w @ [(i, n, x, adapt_bool o')],
                                     items_seq := i\<rparr>\<rparr>)))"

text \<open>\<^verbatim>\<open>executemany\<close> runs the statement once per tuple, in order.\<close>

fun insert_items ::
  "connection \<Rightarrow> (string \<times> float \<times> bool option) list \<Rightarrow> error + connection" where
  "insert_items c [] = Inr c"
| "insert_items c (v # vs) =
     (case insert_item c v of Inl e \<Rightarrow> Inl e | Inr (_, c') \<Rightarrow> insert_items c' vs)"

text \<open>
  \<^verbatim>\<open>INSERT INTO users (username, email, full_name) VALUES (?, ?, ?)\<close>. Both
  \<^verbatim>\<open>username\<close> and \<^verbatim>\<open>email\<close> are declared \<^verbatim>\<open>UNIQUE\<close>: the statement raises
  \<^verbatim>\<open>IntegrityError\<close> and changes nothing when a row already has either value.
\<close>

definition insert_user :: "connection \<Rightarrow> string \<times> string \<times> string option \<Rightarrow> error + (int \<times> connection)" where
  "insert_user c v =
     (case v of (un, em, fn) \<Rightarrow>
        let w = work c in
        if list_ex (\<lambda>(_, un', em', _). un' = un \<or> em' = em) (users w) then Inl IntegrityError
        else
          let i = next_rowid (users_seq w) (map fst (users w))
          in Inr (i, c\<lparr>work := w\<lparr>users := users w @ [(i, un, em, fn)], users_seq := i\<rparr>\<rparr>))"

fun insert_users :: "connection \<Rightarrow> (string \<times> string \<times> string option) list \<Rightarrow> error + connection" where
  "insert_users c [] = Inr c"
| "insert_users c (v # vs) =
     (case insert_user c v of Inl e \<Rightarrow> Inl e | Inr (_, c') \<Rightarrow> insert_users c' vs)"

text \<open>
  \<^verbatim>\<open>UPDATE items SET name = ?, price = ?, is_offer = ? WHERE id = ?\<close> and
  \<^verbatim>\<open>DELETE FROM items WHERE id = ?\<close>; each returns \<^verbatim>\<open>rowcount\<close>, the number of rows the
  \<^verbatim>\<open>WHERE\<close> clause selected. The update raises \<^verbatim>\<open>IntegrityError\<close> when it would
  write a NULL price into a row; when it selects no row it writes nothing.
\<close>

definition update_items ::
  "connection \<Rightarrow> string \<times> float \<times> bool option \<Rightarrow> int \<Rightarrow> error + (nat \<times> connection)" where
  "update_items c v k =
     (case v of (n, p, o') \<Rightarrow>
        let w = work c in
        (case bind_float p of
           None \<Rightarrow>
             if list_ex (\<lambda>r. fst r = k) (items w) then Inl IntegrityError else Inr (0, c)
         | Some x \<Rightarrow>
             Inr (length (filter (\<lambda>r. fst r = k) (items w)),
                  c\<lparr>work := w\<lparr>items := map (\<lambda>r. if fst r = k then (k, n, x, adapt_bool o') else r)
                                              (items w)\<rparr>\<rparr>)))"

definition delete_items :: "connection \<Rightarrow> int \<Rightarrow> nat \<times> connection" where
  "delete_items c k =
     (let w = work c in
      (length (filter (\<lambda>r. fst r = k) (items w)),
       c\<lparr>work := w\<lparr>items := filter (\<lambda>r. fst r \<noteq> k) (items w)\<rparr>\<rparr>))"

text \<open>\<^verbatim>\<open>SELECT id FROM items WHERE id = ?\<close> followed by \<^verbatim>\<open>fetchone\<close>.\<close>

definition select_id :: "connection \<Rightarrow> int \<Rightarrow> int option" where
  "select_id c k = map_option fst (find (\<lambda>r. fst r = k) (items (work c)))"

subsection \<open>The pattern-match operator\<close>

text \<open>
  SQLite's \<^verbatim>\<open>LIKE\<close> without an \<^verbatim>\<open>ESCAPE\<close> clause. It reads the pattern and the text
  as C strings, each up to its first NUL. \<^verbatim>\<open>%\<close> in the pattern stands for any run of
  characters, \<^verbatim>\<open>_\<close> for any one character, and every other character for itself,
  where the ASCII letters are compared without regard to case. A pattern of more than
  50000 bytes is refused with \<^verbatim>\<open>OperationalError\<close>.
\<close>

definition lower :: "char \<Rightarrow> char" where
  "lower c = (let n = (of_char c :: nat) in if 65 \<le> n \<and> n \<le> 90 then char_of (n + 32) else c)"

definition c_str :: "string \<Rightarrow> string" where
  "c_str s = takeWhile (\<lambda>c. c \<noteq> CHR 0x00) s"

definition utf8_length :: "string \<Rightarrow> nat" where
  "utf8_length s = sum_list (map (\<lambda>c. if (of_char c :: nat) < 128 then 1 else 2) s)"

fun pattern_compare :: "string \<Rightarrow> string \<Rightarrow> bool" where
  "pattern_compare [] [] = True"
| "pattern_compare [] (c # cs) = False"
| "pattern_compare (p # ps) [] = (p = CHR ''%'' \<and> pattern_compare ps [])"
| "pattern_compare (p # ps) (c # cs) =
     (if p = CHR ''%'' then pattern_compare ps (c # cs) \<or> pattern_compare (p # ps) cs
      else (p = CHR ''_'' \<or> lower p = lower c) \<and> pattern_compare ps cs)"

definition like :: "string \<Rightarrow> string \<Rightarrow> error + bool" where
  "like pat subject =
     (if utf8_length pat > 50000 then Inl OperationalError
      else Inr (pattern_compare (c_str pat) (c_str subject)))"

subsection \<open>Startup\<close>

definition dummy_items :: "(string \<times> float \<times> bool option) list" where
  "dummy_items =
     [(''Laptop'', Num (Finite 999.99), Some True),
      (''Mouse'', Num (Finite 25.50), Some False),
      (''Keyboard'', Num (Finite 75.00), Some True),
      (''Monitor'', Num (Finite 299.99), Some False),
      (''Headphones'', Num (Finite 149.99), Some True)]"

definition dummy_users :: "(string \<times> string \<times> string option) list" where
  "dummy_users =
     [(''john_doe'', ''john@example.com'', Some ''John Doe''),
      (''jane_smith'', ''jane@example.com'', Some ''Jane Smith''),
      (''alice_wonder'', ''alice@example.com'', Some ''Alice Wonderland'')]"

text \<open>
  \<^verbatim>\<open>init_db\<close>: \<^verbatim>\<open>CREATE TABLE IF NOT EXISTS\<close> leaves an existing table alone; each table
  is seeded when \<^verbatim>\<open>SELECT COUNT(*)\<close> finds it empty. An \<^verbatim>\<open>IntegrityError\<close> from a seed
  row would leave the function before \<^verbatim>\<open>commit\<close>.
\<close>

definition init_db :: "store \<Rightarrow> error + store" where
  "init_db s =
     (let conn = connect s in
      case (if length (items (work conn)) = 0 then insert_items conn dummy_items else Inr conn) of
        Inl e \<Rightarrow> Inl e
      | Inr conn \<Rightarrow>
          if length (users (work conn)) = 0
          then (case insert_users conn dummy_users of
                  Inl e \<Rightarrow> Inl e
                | Inr conn' \<Rightarrow> Inr (close (commit conn')))
          else Inr (close (commit conn)))"

subsection \<open>Handlers of \<^verbatim>\<open>api_tutorial.py\<close>\<close>

definition row_to_Item :: "item_row \<Rightarrow> Item" where
  "row_to_Item row =
     (case row of (i, n, p, o') \<Rightarrow>
        \<lparr>id_item = Some i, name_item = n, price_item = Num p,
         is_offer_item = map_option (\<lambda>v. v \<noteq> 0) o'\<rparr>)"

text \<open>\<^verbatim>\<open>GET /items/\<close>: the items and their count.\<close>

definition list_items :: "store \<Rightarrow> Item list \<times> nat" where
  "list_items s =
     (let conn = connect s;
          rows = items (work conn);
          its = map row_to_Item rows
      in (its, length its))"

text \<open>
  \<^verbatim>\<open>POST /items/\<close>: the created item and a message. The handler catches nothing: an
  exception of the statement leaves it before \<^verbatim>\<open>commit\<close>.
\<close>

definition create_item :: "store \<Rightarrow> Item \<Rightarrow> (error + Item \<times> string) \<times> store" where
  "create_item s item =
     (let conn = connect s in
      case insert_item conn (name_item item, price_item item, is_offer_item item) of
        Inl e \<Rightarrow> (Inl e, s)
      | Inr (lastrowid, conn) \<Rightarrow>
          let conn = commit conn
          in (Inr (\<lparr>id_item = Some lastrowid, name_item = name_item item,
                     price_item = price_item item, is_offer_item = is_offer_item item\<rparr>,
                   ''Item created successfully''),
              close conn))"

text \<open>\<^verbatim>\<open>PUT /items/{item_id}\<close>.\<close>

definition update_item :: "store \<Rightarrow> int \<Rightarrow> Item \<Rightarrow> (error + int \<times> Item \<times> string) \<times> store" where
  "update_item s item_id item =
     (let conn = connect s in
      case bind_int item_id of
        Inl e \<Rightarrow> (Inl e, s)
      | Inr k \<Rightarrow>
          (case update_items conn (name_item item, price_item item, is_offer_item item) k of
             Inl e \<Rightarrow> (Inl e, s)
           | Inr (rowcount, conn) \<Rightarrow>
               if rowcount = 0 then (Inl (HTTPException 404 ''Item not found''), close conn)
               else (Inr (item_id, item, ''Item updated''), close (commit conn))))"

fun digits :: "nat \<Rightarrow> string" where
  "digits n = (if n < 10 then [char_of (48 + n)] else digits (n div 10) @ [char_of (48 + n mod 10)])"

declare digits.simps [simp del]

text \<open>Python's \<^verbatim>\<open>str\<close> of an \<^verbatim>\<open>int\<close>, as an f-string formats it.\<close>

definition str :: "int \<Rightarrow> string" where
  "str i = (if i < 0 then CHR ''-'' # digits (nat (- i)) else digits (nat i))"

text \<open>\<^verbatim>\<open>DELETE /items/{item_id}\<close>.\<close>

definition delete_item :: "store \<Rightarrow> int \<Rightarrow> (error + string) \<times> store" where
  "delete_item s item_id =
     (let conn = connect s in
      case bind_int item_id of
        Inl e \<Rightarrow> (Inl e, s)
      | Inr k \<Rightarrow>
          let (rowcount, conn) = delete_items conn k
          in if rowcount = 0 then (Inl (HTTPException 404 ''Item not found''), close conn)
             else (Inr (''Item '' @ str item_id @ '' deleted''), close (commit conn)))"

text \<open>
  \<^verbatim>\<open>GET /search/\<close>. The handler appends one \<^verbatim>\<open>AND\<close> clause and one parameter per filter
  it was given; a clause is kept here together with the parameter bound to its \<^verbatim>\<open>?\<close>.
  A comparison with NULL is not true.
\<close>

datatype clause = NameLike string | PriceGE "ext_real option" | PriceLE "ext_real option"

fun holds :: "item_row \<Rightarrow> clause \<Rightarrow> error + bool" where
  "holds (i, n, p, o') (NameLike pat) = like pat n"
| "holds (i, n, p, o') (PriceGE None) = Inr False"
| "holds (i, n, p, o') (PriceGE (Some x)) = Inr (ext_le x p)"
| "holds (i, n, p, o') (PriceLE None) = Inr False"
| "holds (i, n, p, o') (PriceLE (Some x)) = Inr (ext_le p x)"

text \<open>
  The clauses of one row are evaluated from left to right and stop at the first that is
  not true; the rows are visited in order, and an error ends the statement.
\<close>

fun where_all :: "item_row \<Rightarrow> clause list \<Rightarrow> error + bool" where
  "where_all row [] = Inr True"
| "where_all row (c # cs) =
     (case holds row c of
        Inl e \<Rightarrow> Inl e
      | Inr b \<Rightarrow> if b then where_all row cs else Inr False)"

fun scan :: "clause list \<Rightarrow> item_row list \<Rightarrow> error + item_row list" where
  "scan query [] = Inr []"
| "scan query (row # rows) =
     (case where_all row query of
        Inl e \<Rightarrow> Inl e
      | Inr b \<Rightarrow>
          (case scan query rows of
             Inl e \<Rightarrow> Inl e
           | Inr out \<Rightarrow> Inr (if b then row # out else out)))"

text \<open>\<^verbatim>\<open>SELECT id, name, price, is_offer FROM items WHERE 1=1 AND ...\<close>.\<close>

definition select_where :: "connection \<Rightarrow> clause list \<Rightarrow> error + item_row list" where
  "select_where c query = scan query (items (work c))"

record search_response =
  found_items :: "Item list"
  filters :: "string option \<times> float option \<times> float option"
  count :: nat

definition search_items ::
  "store \<Rightarrow> string option \<Rightarrow> float option \<Rightarrow> float option \<Rightarrow> error + search_response" where
  "search_items s name price_min price_max =
     (let conn = connect s;
          query = [];
          query = (case name of
                     Some n \<Rightarrow> if n \<noteq> [] then query @ [NameLike (''%'' @ n @ ''%'')] else query
                   | None \<Rightarrow> query);
          query = (case price_min of Some lo \<Rightarrow> query @ [PriceGE (bind_float lo)] | None \<Rightarrow> query);
          query = (case price_max of Some hi \<Rightarrow> query @ [PriceLE (bind_float hi)] | None \<Rightarrow> query)
      in case select_where conn query of
           Inl e \<Rightarrow> Inl e
         | Inr rows \<Rightarrow>
             let its = map row_to_Item rows
             in Inr \<lparr>found_items = its, filters = (name, price_min, price_max),
                     count = length its\<rparr>)"


text \<open>\<^verbatim>\<open>GET /items/{item_id}/status\<close>.\<close>

definition read_item_with_status :: "store \<Rightarrow> int \<Rightarrow> error + int \<times> string" where
  "read_item_with_status s item_id =
     (let conn = connect s in
      case bind_int item_id of
        Inl e \<Rightarrow> Inl e
      | Inr k \<Rightarrow>
          let exists = (select_id conn k \<noteq> None)
          in if \<not> exists then Inl (HTTPException 404 ''Item not found'')
             else Inr (item_id, ''found''))"

subsection \<open>Routes\<close>

text \<open>
  A route is a method, a path template and the name of the function the decorator was
  applied to. A path is the list of its segments after the leading slash, so a trailing
  slash gives a last segment that is empty. A request goes to the first route whose
  template and method both match; when only templates match, the answer is 405. When
  nothing matches and the path is not the root, the router tries the path with its
  trailing slashes removed, or with one added when it had none, and answers with a
  redirect if any template matches that; otherwise the answer is 404. The routes that the
  framework adds for its own documentation pages are not listed.
\<close>

datatype http_method = GET | POST | PUT | DELETE

datatype segment = Lit string | Param string

type_synonym route = "http_method \<times> segment list \<times> string"

fun seg_matches :: "segment \<Rightarrow> string \<Rightarrow> bool" where
  "seg_matches (Lit l) s = (s = l)"
| "seg_matches (Param x) s = (s \<noteq> [])"

definition path_matches :: "segment list \<Rightarrow> string list \<Rightarrow> bool" where
  "path_matches template path = list_all2 seg_matches template path"

definition redirect_path :: "string list \<Rightarrow> string list" where
  "redirect_path path =
     (if path \<noteq> [] \<and> last path = [] then rev (dropWhile (\<lambda>seg. seg = []) (rev path))
      else path @ [[]])"

datatype dispatched = Handler string | MethodNotAllowed | Redirect "string list" | NotFound

definition dispatch :: "route list \<Rightarrow> http_method \<Rightarrow> string list \<Rightarrow> dispatched" where
  "dispatch routes m path =
     (case find (\<lambda>(m', template, h). path_matches template path \<and> m' = m) routes of
        Some (_, _, h) \<Rightarrow> Handler h
      | None \<Rightarrow>
          if list_ex (\<lambda>(m', template, h). path_matches template path) routes
          then MethodNotAllowed
          else if path \<noteq> [[]]
                  \<and> list_ex (\<lambda>(m', template, h). path_matches template (redirect_path path)) routes
          then Redirect (redirect_path path)
          else NotFound)"

text \<open>
  The decorators of \<^verbatim>\<open>api_tutorial.py\<close>, in the order they run. \<^verbatim>\<open>list_items\<close> is
  defined and registered twice; the statements that follow the second definition's
  \<^verbatim>\<open>return\<close> (a lookup by \<^verbatim>\<open>item_id\<close> that returns the item and \<^verbatim>\<open>q\<close>) belong to no
  function of their own and are never run.
\<close>

definition api_tutorial_routes :: "route list" where
  "api_tutorial_routes =
     [(GET, [Lit []], ''read_root''),
      (GET, [Lit ''items'', Lit []], ''list_items''),
      (GET, [Lit ''items'', Lit []], ''list_items''),
      (POST, [Lit ''items'', Lit []], ''create_item''),
      (PUT, [Lit ''items'', Param ''item_id''], ''update_item''),
      (DELETE, [Lit ''items'', Param ''item_id''], ''delete_item''),
      (GET, [Lit ''search'', Lit []], ''search_items''),
      (POST, [Lit ''users'', Lit []], ''create_user''),
      (GET, [Lit ''async-example'', Lit []], ''async_example''),
      (GET, [Lit ''items'', Param ''item_id'', Lit ''status''], ''read_item_with_status'')]"

definition test_py_routes :: "route list" where
  "test_py_routes =
     [(GET, [Lit []], ''read_root''),
      (GET, [Lit ''items'', Param ''item_id''], ''read_item''),
      (POST, [Lit ''items'', Lit []], ''create_item''),
      (PUT, [Lit ''items'', Param ''item_id''], ''update_item''),
      (DELETE, [Lit ''items'', Param ''item_id''], ''delete_item''),
      (GET, [Lit ''search'', Lit []], ''search_items''),
      (POST, [Lit ''users'', Lit []], ''create_user''),
      (GET, [Lit ''async-example'', Lit []], ''async_example''),
      (GET, [Lit ''items'', Param ''item_id'', Lit ''status''], ''read_item_with_status'')]"

subsection \<open>Handlers of \<^verbatim>\<open>test.py\<close>\<close>

text \<open>
  The models of \<^verbatim>\<open>test.py\<close> have no \<^verbatim>\<open>id\<close>. Its handlers touch no store; each is
  written here as taking a store and handing it back.
\<close>

record Item_test_py =
  name_t :: string
  price_t :: float
  is_offer_t :: "bool option"

record User_test_py =
  username_t :: string
  email_t :: string
  full_name_t :: "string option"

definition read_item_test_py ::
  "store \<Rightarrow> int \<Rightarrow> string option \<Rightarrow> (error + int \<times> string option) \<times> store" where
  "read_item_test_py s item_id q = (Inr (item_id, q), s)"

definition create_item_test_py ::
  "store \<Rightarrow> Item_test_py \<Rightarrow> (error + Item_test_py \<times> string) \<times> store" where
  "create_item_test_py s item = (Inr (item, ''Item created successfully''), s)"

definition update_item_test_py ::
  "store \<Rightarrow> int \<Rightarrow> Item_test_py \<Rightarrow> (error + int \<times> Item_test_py \<times> string) \<times> store" where
  "update_item_test_py s item_id item = (Inr (item_id, item, ''Item updated''), s)"

definition delete_item_test_py :: "store \<Rightarrow> int \<Rightarrow> (error + string) \<times> store" where
  "delete_item_test_py s item_id = (Inr (''Item '' @ str item_id @ '' deleted''), s)"

definition create_user_test_py ::
  "store \<Rightarrow> User_test_py \<Rightarrow> (error + User_test_py \<times> string) \<times> store" where
  "create_user_test_py s user = (Inr (user, ''User created''), s)"

definition read_item_with_status_test_py :: "store \<Rightarrow> int \<Rightarrow> (error + int \<times> string) \<times> store" where
  "read_item_with_status_test_py s item_id =
     (if item_id = 999 then (Inl (HTTPException 404 ''Item not found''), s)
      else (Inr (item_id, ''found''), s))"

subsection \<open>Sample data\<close>

text \<open>The store after the first start on a new file.\<close>

definition seeded_store :: store where
  "seeded_store =
     \<lparr>items =
        [(1, ''Laptop'', Finite 999.99, Some 1),
         (2, ''Mouse'', Finite 25.50, Some 0),
         (3, ''Keyboard'', Finite 75.00, Some 1),
         (4, ''Monitor'', Finite 299.99, Some 0),
         (5, ''Headphones'', Finite 149.99, Some 1)],
      items_seq = 5,
      users =
        [(1, ''john_doe'', ''john@example.com'', Some ''John Doe''),
         (2, ''jane_smith'', ''jane@example.com'', Some ''Jane Smith''),
         (3, ''alice_wonder'', ''alice@example.com'', Some ''Alice Wonderland'')],
      users_seq = 3\<rparr>"




definition webcam :: Item where
  "webcam = \<lparr>id_item = None, name_item = ''Webcam'', price_item = Num (Finite 59.90),
             is_offer_item = None\<rparr>"

definition unpriced :: Item where
  "unpriced = \<lparr>id_item = None, name_item = ''Webcam'', price_item = NaN, is_offer_item = None\<rparr>"

text \<open>The seed rows as \<^verbatim>\<open>init_db\<close> stores them, numbered from the table's counter.\<close>

definition seeded_items :: "int \<Rightarrow> item_row list" where
  "seeded_items seq =
     [(seq + 1, ''Laptop'', Finite 999.99, Some 1),
      (seq + 2, ''Mouse'', Finite 25.50, Some 0),
      (seq + 3, ''Keyboard'', Finite 75.00, Some 1),
      (seq + 4, ''Monitor'', Finite 299.99, Some 0),
      (seq + 5, ''Headphones'', Finite 149.99, Some 1)]"

definition seeded_users :: "int \<Rightarrow> user_row list" where
  "seeded_users seq =
     [(seq + 1, ''john_doe'', ''john@example.com'', Some ''John Doe''),
      (seq + 2, ''jane_smith'', ''jane@example.com'', Some ''Jane Smith''),
      (seq + 3, ''alice_wonder'', ''alice@example.com'', Some ''Alice Wonderland'')]"

subsection \<open>The search contract\<close>

text \<open>
  What is asked of \<^verbatim>\<open>GET /search/\<close>, written without the store's operator, to be
  compared with the query the handler builds. Two characters are the same letter when
  they are equal or are an ASCII capital and its small letter. A text contains a filter
  when the filter's characters, letter for letter, stand in a row somewhere in the text.
  Comparisons of floats are those of Python: none holds of NaN. A row is returned when
  its name, read up to its first NUL, contains the name filter and its price lies
  between the bounds, both included; a filter that is absent asks nothing.
\<close>

definition same_letter :: "char \<Rightarrow> char \<Rightarrow> bool" where
  "same_letter a b =
     (a = b
      \<or> (65 \<le> (of_char a :: nat) \<and> (of_char a :: nat) \<le> 90 \<and> (of_char b :: nat) = of_char a + 32)
      \<or> (65 \<le> (of_char b :: nat) \<and> (of_char b :: nat) \<le> 90 \<and> (of_char a :: nat) = of_char b + 32))"

fun starts_with :: "string \<Rightarrow> string \<Rightarrow> bool" where
  "starts_with [] t = True"
| "starts_with (a # f) [] = False"
| "starts_with (a # f) (b # t) = (same_letter a b \<and> starts_with f t)"

fun contains :: "string \<Rightarrow> string \<Rightarrow> bool" where
  "contains f [] = starts_with f []"
| "contains f (b # t) = (starts_with f (b # t) \<or> contains f t)"

fun float_le :: "float \<Rightarrow> float \<Rightarrow> bool" where
  "float_le (Num a) (Num b) = ext_le a b"
| "float_le x y = False"

definition spec_matches :: "string option \<Rightarrow> float option \<Rightarrow> float option \<Rightarrow> item_row \<Rightarrow> bool" where
  "spec_matches name price_min price_max row =
     (case row of (i, n, p, o') \<Rightarrow>
        (case name of None \<Rightarrow> True | Some f \<Rightarrow> contains f (c_str n))
        \<and> (case price_min of None \<Rightarrow> True | Some lo \<Rightarrow> float_le lo (Num p))
        \<and> (case price_max of None \<Rightarrow> True | Some hi \<Rightarrow> float_le (Num p) hi))"

text \<open>
  A name filter in which no character is a wildcard of \<^verbatim>\<open>LIKE\<close> or NUL, and whose
  pattern \<^verbatim>\<open>%name%\<close> stays within the 50000 bytes the operator accepts.
\<close>

definition plain :: "string \<Rightarrow> bool" where
  "plain f = (CHR ''%'' \<notin> set f \<and> CHR ''_'' \<notin> set f \<and> CHR 0x00 \<notin> set f
              \<and> utf8_length f + 2 \<le> 50000)"

definition plain_filter :: "string option \<Rightarrow> bool" where
  "plain_filter name = (case name of None \<Rightarrow> True | Some f \<Rightarrow> plain f)"

text \<open>
  A row is returned as the item with its id, name and price, and with its offer flag read
  as a truth value: a stored 0 is \<^verbatim>\<open>False\<close>, any other number \<^verbatim>\<open>True\<close>.
\<close>

definition as_item :: "item_row \<Rightarrow> Item" where
  "as_item row =
     \<lparr>id_item = Some (fst row), name_item = fst (snd row), price_item = Num (fst (snd (snd row))),
      is_offer_item = (case snd (snd (snd row)) of None \<Rightarrow> None | Some v \<Rightarrow> Some (v \<noteq> 0))\<rparr>"

text \<open>A name of 49999 bytes, whose pattern has 50001, and a store with a NUL in a name.\<close>

definition long_name :: string where
  "long_name = replicate 49999 CHR ''a''"

definition nul_name_store :: store where
  "nul_name_store =
     \<lparr>items =
        [(1, ''Lap'' @ [CHR 0x00] @ ''top'', Finite 10, None),
         (2, ''Desktop'', Finite 20, Some 1)],
      items_seq = 2, users = [], users_seq = 0\<rparr>"

section \<open>Properties\<close>

subsection \<open>Identifiers\<close>

lemma fold_max_ge: "fold max ids (seq::int) \<ge> seq \<and> (\<forall>k\<in>set ids. k \<le> fold max ids seq)"
proof (induction ids arbitrary: seq)
  case Nil
  show ?case by simp
next
  case (Cons a ids)
  from Cons[of "max a seq"] show ?case by auto
qed

lemma next_rowid_fresh: "next_rowid seq ids \<notin> set ids"
  using fold_max_ge[of seq ids] by (fastforce simp: next_rowid_def)

lemma bool_roundtrip: "map_option (\<lambda>v. v \<noteq> 0) (adapt_bool b) = b"
  by (cases b) (auto simp: adapt_bool_def)

subsection \<open>Creating an item\<close>

text \<open>
  With a price that is a number, \<^verbatim>\<open>POST /items/\<close> returns the item under an id that no
  row of the table had before the call, and the listing of the store it leaves contains
  that item.
\<close>

lemma create_item_fresh:
  assumes "price_item item = Num x"
  shows "\<exists>i. fst (create_item s item) =
          Inr (\<lparr>id_item = Some i, name_item = name_item item, price_item = price_item item,
                 is_offer_item = is_offer_item item\<rparr>, ''Item created successfully'')
     \<and> i \<notin> fst ` set (items s)
     \<and> \<lparr>id_item = Some i, name_item = name_item item, price_item = price_item item,
          is_offer_item = is_offer_item item\<rparr> \<in> set (fst (list_items (snd (create_item s item))))"
proof -
  define i where "i = next_rowid (items_seq s) (map fst (items s))"
  have r: "create_item s item =
      (Inr (\<lparr>id_item = Some i, name_item = name_item item, price_item = price_item item,
                 is_offer_item = is_offer_item item\<rparr>, ''Item created successfully''),
       s\<lparr>items := items s @ [(i, name_item item, x, adapt_bool (is_offer_item item))],
         items_seq := i\<rparr>)"
    using assms
    by (simp add: create_item_def connect_def insert_item_def bind_float_def commit_def
        close_def Let_def i_def)
  have f: "i \<notin> fst ` set (items s)"
    using next_rowid_fresh[of "items_seq s" "map fst (items s)"] by (simp add: i_def)
  have l: "row_to_Item (i, name_item item, x, adapt_bool (is_offer_item item))
        = \<lparr>id_item = Some i, name_item = name_item item, price_item = price_item item,
          is_offer_item = is_offer_item item\<rparr>"
    using assms by (simp add: row_to_Item_def bool_roundtrip)
  have m: "\<lparr>id_item = Some i, name_item = name_item item, price_item = price_item item,
          is_offer_item = is_offer_item item\<rparr> \<in> set (fst (list_items (snd (create_item s item))))"
    unfolding r by (simp add: list_items_def connect_def Let_def l)
  from r f m show ?thesis by (intro exI[of _ i]) simp
qed

lemma create_item_webcam:
  "fst (create_item seeded_store webcam)
     = Inr (\<lparr>id_item = Some 6, name_item = ''Webcam'', price_item = Num (Finite 59.90),
              is_offer_item = None\<rparr>,
            ''Item created successfully'')
   \<and> 6 \<notin> fst ` set (items seeded_store)
   \<and> \<lparr>id_item = Some 6, name_item = ''Webcam'', price_item = Num (Finite 59.90),
        is_offer_item = None\<rparr>
       \<in> set (fst (list_items (snd (create_item seeded_store webcam))))"
proof -
  have e: "fst (create_item seeded_store webcam)
     = Inr (\<lparr>id_item = Some 6, name_item = ''Webcam'', price_item = Num (Finite 59.90),
              is_offer_item = None\<rparr>,
            ''Item created successfully'')"
    by (simp add: create_item_def connect_def insert_item_def bind_float_def commit_def
        close_def Let_def seeded_store_def webcam_def next_rowid_def)
  have w: "name_item webcam = ''Webcam''" "price_item webcam = Num (Finite 59.90)"
    "is_offer_item webcam = None"
    by (simp_all add: webcam_def)
  from create_item_fresh[OF w(2), of seeded_store] e w show ?thesis by auto
qed

text \<open>
  C7. A NaN price is a \<^verbatim>\<open>float\<close> that the request model accepts. The statement gets it
  as NULL, \<^verbatim>\<open>price REAL NOT NULL\<close> refuses the row, and the handler, which catches
  nothing, leaves with \<^verbatim>\<open>IntegrityError\<close>: no record is returned and no row is added.
\<close>

theorem create_item_nan_price:
  "create_item seeded_store unpriced = (Inl IntegrityError, seeded_store)"
  by (simp add: create_item_def connect_def insert_item_def bind_float_def unpriced_def)

subsection \<open>Updating and deleting\<close>

lemma bind_int_in_range: "- (2 ^ 63) \<le> i \<Longrightarrow> i < 2 ^ 63 \<Longrightarrow> bind_int i = Inr i"
  by (simp add: bind_int_def)

lemma rowcount_zero_iff: "(length (filter (\<lambda>r. fst r = k) rows) = 0) = (k \<notin> fst ` set rows)"
  by (auto simp: filter_empty_conv)

lemma update_items_absent:
  assumes "k \<notin> fst ` set (items s)"
  shows "\<exists>c. update_items (connect s) v k = Inr (0, c)"
proof -
  have z: "length (filter (\<lambda>r. fst r = k) (items s)) = 0"
    using rowcount_zero_iff[of k "items s"] assms by blast
  have n: "\<not> list_ex (\<lambda>r. fst r = k) (items s)"
    using assms by (auto simp: list_ex_iff)
  show ?thesis
    using z n
    by (cases v; cases "bind_float (fst (snd v))")
       (auto simp: update_items_def connect_def Let_def)
qed

text \<open>
  For an \<^verbatim>\<open>item_id\<close> that the store's INTEGER type can hold and that no row has,
  \<^verbatim>\<open>PUT /items/{item_id}\<close> and \<^verbatim>\<open>DELETE /items/{item_id}\<close> both fail with 404; the
  handlers read this off a \<^verbatim>\<open>rowcount\<close> of zero.
\<close>

lemma update_delete_absent_not_found:
  assumes "item_id \<notin> fst ` set (items s)" and "- (2 ^ 63) \<le> item_id" and "item_id < 2 ^ 63"
  shows "fst (update_item s item_id item) = Inl (HTTPException 404 ''Item not found'')
       \<and> fst (delete_item s item_id) = Inl (HTTPException 404 ''Item not found'')
       \<and> fst (delete_items (connect s) item_id) = 0"
proof -
  have b: "bind_int item_id = Inr item_id"
    using assms(2,3) by (rule bind_int_in_range)
  have z: "length (filter (\<lambda>r. fst r = item_id) (items s)) = 0"
    using rowcount_zero_iff[of item_id "items s"] assms(1) by blast
  obtain c where u: "update_items (connect s) (name_item item, price_item item, is_offer_item item) item_id
      = Inr (0, c)"
    using update_items_absent[OF assms(1)] by blast
  have d: "fst (delete_items (connect s) item_id) = 0"
    using z by (simp add: delete_items_def connect_def Let_def)
  have "fst (update_item s item_id item) = Inl (HTTPException 404 ''Item not found'')"
    by (simp add: update_item_def b u Let_def)
  moreover have "fst (delete_item s item_id) = Inl (HTTPException 404 ''Item not found'')"
    using d by (auto simp: delete_item_def b Let_def split: prod.splits)
  ultimately show ?thesis using d by simp
qed

lemma update_delete_absent_999:
  "fst (update_item seeded_store 999 webcam) = Inl (HTTPException 404 ''Item not found'')
   \<and> fst (delete_item seeded_store 999) = Inl (HTTPException 404 ''Item not found'')"
proof -
  have a: "(999::int) \<notin> fst ` set (items seeded_store)" by (simp add: seeded_store_def)
  have l: "- (2 ^ 63) \<le> (999::int)" by simp
  have h: "(999::int) < 2 ^ 63" by simp
  from update_delete_absent_not_found[OF a l h] show ?thesis by simp
qed

text \<open>
  C3. Outside the signed 64-bit range the statement's parameter cannot be bound:
  \<^verbatim>\<open>cursor.execute\<close> raises \<^verbatim>\<open>OverflowError\<close>, the handlers never reach their test of
  \<^verbatim>\<open>rowcount\<close>, and an id that no row has is answered with an unhandled error instead
  of 404.
\<close>

theorem update_delete_out_of_range:
  "9223372036854775808 \<notin> fst ` set (items seeded_store)
   \<and> update_item seeded_store 9223372036854775808 webcam = (Inl OverflowError, seeded_store)
   \<and> delete_item seeded_store 9223372036854775808 = (Inl OverflowError, seeded_store)"
  by (simp add: seeded_store_def update_item_def delete_item_def bind_int_def Let_def)

text \<open>
  C9. When \<^verbatim>\<open>PUT /items/{item_id}\<close> or \<^verbatim>\<open>DELETE /items/{item_id}\<close> fails with 404,
  the store is what it was before the call.
\<close>

theorem not_found_leaves_store:
  "(fst (update_item s item_id item) = Inl (HTTPException 404 ''Item not found'')
      \<longrightarrow> snd (update_item s item_id item) = s)
   \<and> (fst (delete_item s item_id) = Inl (HTTPException 404 ''Item not found'')
      \<longrightarrow> snd (delete_item s item_id) = s)"
proof -
  have u: "snd (update_item s item_id item) = s"
    if "fst (update_item s item_id item) = Inl (HTTPException 404 ''Item not found'')"
    using that
    by (auto simp: update_item_def update_items_def connect_def close_def commit_def Let_def
          split: sum.splits prod.splits if_splits option.splits)
  have d: "snd (delete_item s item_id) = s"
    if "fst (delete_item s item_id) = Inl (HTTPException 404 ''Item not found'')"
    using that
    by (auto simp: delete_item_def delete_items_def connect_def close_def commit_def Let_def
          split: sum.splits prod.splits if_splits)
  from u d show ?thesis by blast
qed

theorem not_found_leaves_store_witness:
  "fst (update_item seeded_store 999 webcam)
       = Inl (HTTPException 404 ''Item not found'')
   \<and> snd (update_item seeded_store 999 webcam)
       = seeded_store
   \<and> fst (delete_item seeded_store 999) = Inl (HTTPException 404 ''Item not found'')
   \<and> snd (delete_item seeded_store 999) = seeded_store"
proof -
  have u: "fst (update_item seeded_store 999 webcam) = Inl (HTTPException 404 ''Item not found'')"
    by (simp add: seeded_store_def update_item_def update_items_def bind_int_def bind_float_def
        connect_def Let_def webcam_def)
  have d: "fst (delete_item seeded_store 999) = Inl (HTTPException 404 ''Item not found'')"
    by (simp add: seeded_store_def delete_item_def delete_items_def bind_int_def connect_def Let_def)
  from not_found_leaves_store[of seeded_store 999 webcam] u d show ?thesis by simp
qed

subsection \<open>The status of an item\<close>

lemma select_id_None: "(select_id (connect s) k = None) = (k \<notin> fst ` set (items s))"
  by (force simp: select_id_def connect_def find_None_iff)

text \<open>
  For an \<^verbatim>\<open>item_id\<close> that the store's INTEGER type can hold,
  \<^verbatim>\<open>GET /items/{item_id}/status\<close> fails with 404 exactly when no row has the id, and
  answers \<^verbatim>\<open>found\<close> exactly when a row has it.
\<close>

lemma status_found_iff_present:
  assumes "- (2 ^ 63) \<le> item_id" and "item_id < 2 ^ 63"
  shows "(read_item_with_status s item_id = Inl (HTTPException 404 ''Item not found''))
           = (item_id \<notin> fst ` set (items s))
       \<and> (read_item_with_status s item_id = Inr (item_id, ''found''))
           = (item_id \<in> fst ` set (items s))"
proof -
  have b: "bind_int item_id = Inr item_id"
    using assms by (rule bind_int_in_range)
  show ?thesis
    by (simp add: read_item_with_status_def b Let_def select_id_None)
qed

lemma status_999_and_3:
  "read_item_with_status seeded_store 999 = Inl (HTTPException 404 ''Item not found'')
   \<and> read_item_with_status seeded_store 3 = Inr (3, ''found'')"
proof -
  have a: "(999::int) \<notin> fst ` set (items seeded_store)" by (simp add: seeded_store_def)
  have p: "(3::int) \<in> fst ` set (items seeded_store)" by (simp add: seeded_store_def)
  have "- (2 ^ 63) \<le> (999::int)" "(999::int) < 2 ^ 63" by simp_all
  from status_found_iff_present[OF this, of seeded_store] a
  have 1: "read_item_with_status seeded_store 999 = Inl (HTTPException 404 ''Item not found'')" by simp
  have "- (2 ^ 63) \<le> (3::int)" "(3::int) < 2 ^ 63" by simp_all
  from status_found_iff_present[OF this, of seeded_store] p
  have 2: "read_item_with_status seeded_store 3 = Inr (3, ''found'')" by simp
  from 1 2 show ?thesis by simp
qed

text \<open>
  C6. Outside that range the lookup cannot bind its parameter: \<^verbatim>\<open>cursor.execute\<close> raises
  \<^verbatim>\<open>OverflowError\<close> before the handler's own test, and an id that no row has is answered
  with an unhandled error instead of 404.
\<close>

theorem status_out_of_range:
  "9223372036854775808 \<notin> fst ` set (items seeded_store)
   \<and> read_item_with_status seeded_store 9223372036854775808 = Inl OverflowError"
  by (simp add: seeded_store_def read_item_with_status_def bind_int_def Let_def)

subsection \<open>Creating a user\<close>






subsection \<open>Startup\<close>

lemma fold_max_dominated: "\<forall>k\<in>set ids. k \<le> seq \<Longrightarrow> fold max ids (seq::int) = seq"
  by (induction ids) (simp_all add: max_absorb2)

lemma insert_item_dominated:
  assumes "\<forall>k\<in>set (map fst (items (work c))). k \<le> items_seq (work c)"
  shows "insert_item c (n, Num x, o') =
     Inr (items_seq (work c) + 1,
          c\<lparr>work := (work c)\<lparr>items := items (work c) @ [(items_seq (work c) + 1, n, x, adapt_bool o')],
                               items_seq := items_seq (work c) + 1\<rparr>\<rparr>)"
  using fold_max_dominated[OF assms]
  by (simp add: insert_item_def bind_float_def next_rowid_def Let_def)

lemma seed_items:
  "items (work c) = [] \<Longrightarrow>
   insert_items c dummy_items =
     Inr (c\<lparr>work := (work c)\<lparr>items := seeded_items (items_seq (work c)),
                                 items_seq := items_seq (work c) + 5\<rparr>\<rparr>)"
  by (simp add: dummy_items_def seeded_items_def insert_item_dominated adapt_bool_def)

lemma seed_users:
  "users (work c) = [] \<Longrightarrow>
   insert_users c dummy_users =
     Inr (c\<lparr>work := (work c)\<lparr>users := seeded_users (users_seq (work c)), users_seq := users_seq (work c) + 3\<rparr>\<rparr>)"
  by (simp add: dummy_users_def seeded_users_def insert_user_def next_rowid_def Let_def)

text \<open>\<^verbatim>\<open>init_db\<close> never fails, and this is the store it leaves.\<close>

lemma init_db_result:
  "init_db s =
     Inr (s\<lparr>items := (if items s = [] then seeded_items (items_seq s) else items s),
           items_seq := (if items s = [] then items_seq s + 5 else items_seq s),
           users := (if users s = [] then seeded_users (users_seq s) else users s),
           users_seq := (if users s = [] then users_seq s + 3 else users_seq s)\<rparr>)"
  by (cases "items s = []"; cases "users s = []")
     (simp_all add: init_db_def Let_def seed_items seed_users connect_def commit_def close_def)

text \<open>
  C8. \<^verbatim>\<open>init_db\<close> seeds a table exactly when it is empty, with the five items and the
  three users of the source; a table that has rows keeps them; and a second run changes
  nothing.
\<close>

theorem init_db_seeds_when_empty:
  "\<exists>s'. init_db s = Inr s'
     \<and> (items s = [] \<longrightarrow> items s' = seeded_items (items_seq s))
     \<and> (items s \<noteq> [] \<longrightarrow> items s' = items s)
     \<and> (users s = [] \<longrightarrow> users s' = seeded_users (users_seq s))
     \<and> (users s \<noteq> [] \<longrightarrow> users s' = users s)
     \<and> init_db s' = Inr s'"
proof -
  define t where
    "t = s\<lparr>items := (if items s = [] then seeded_items (items_seq s) else items s),
           items_seq := (if items s = [] then items_seq s + 5 else items_seq s),
           users := (if users s = [] then seeded_users (users_seq s) else users s),
           users_seq := (if users s = [] then users_seq s + 3 else users_seq s)\<rparr>"
  have r: "init_db s = Inr t"
    unfolding t_def by (rule init_db_result)
  have i: "items t \<noteq> []" and u: "users t \<noteq> []"
    by (simp_all add: t_def seeded_items_def seeded_users_def)
  have again: "init_db t = Inr t"
    using i u by (simp add: init_db_result[of t])
  have its: "items s = [] \<longrightarrow> items t = seeded_items (items_seq s)"
    and itk: "items s \<noteq> [] \<longrightarrow> items t = items s"
    and uss: "users s = [] \<longrightarrow> users t = seeded_users (users_seq s)"
    and usk: "users s \<noteq> [] \<longrightarrow> users t = users s"
    by (simp_all add: t_def)
  from r its itk uss usk again show ?thesis by blast
qed

theorem init_db_seeds_when_empty_witness:
  "items empty_store = [] \<and> users empty_store = []
   \<and> init_db empty_store = Inr seeded_store
   \<and> items seeded_store = seeded_items 0 \<and> users seeded_store = seeded_users 0
   \<and> items seeded_store \<noteq> [] \<and> users seeded_store \<noteq> []
   \<and> init_db seeded_store = Inr seeded_store"
proof -
  have e: "init_db empty_store = Inr seeded_store"
    by (simp add: init_db_result empty_store_def seeded_store_def seeded_items_def seeded_users_def)
  have v: "items empty_store = []" "users empty_store = []" "items_seq empty_store = 0"
    "users_seq empty_store = 0"
    by (simp_all add: empty_store_def)
  have n: "items seeded_store \<noteq> []" "users seeded_store \<noteq> []"
    by (simp_all add: seeded_store_def)
  from init_db_seeds_when_empty[of empty_store] e v
  have 1: "items seeded_store = seeded_items 0" "users seeded_store = seeded_users 0"
    "init_db seeded_store = Inr seeded_store"
    by auto
  from 1 e v n show ?thesis by simp
qed

subsection \<open>Searching\<close>

lemma pattern_compare_all [simp]: "pattern_compare ''%'' s"
  by (induction s) auto

lemma pattern_compare_percent:
  "pattern_compare (CHR ''%'' # p) s \<longleftrightarrow> (\<exists>a t. s = a @ t \<and> pattern_compare p t)"
proof (induction s)
  case Nil
  show ?case by (cases p) auto
next
  case (Cons c cs)
  show ?case
  proof
    assume "pattern_compare (CHR ''%'' # p) (c # cs)"
    then consider "pattern_compare p (c # cs)" | "pattern_compare (CHR ''%'' # p) cs" by auto
    then show "\<exists>a t. c # cs = a @ t \<and> pattern_compare p t"
    proof cases
      case 1 then show ?thesis by (metis append_Nil)
    next
      case 2
      with Cons obtain a t where "cs = a @ t" "pattern_compare p t" by auto
      then show ?thesis by (metis append_Cons)
    qed
  next
    assume "\<exists>a t. c # cs = a @ t \<and> pattern_compare p t"
    then obtain a t where at: "c # cs = a @ t" "pattern_compare p t" by auto
    show "pattern_compare (CHR ''%'' # p) (c # cs)"
    proof (cases a)
      case Nil with at show ?thesis by auto
    next
      case (Cons x xs)
      with at have "cs = xs @ t" by auto
      with at Cons.IH show ?thesis by auto
    qed
  qed
qed

lemma pattern_compare_literal:
  "CHR ''%'' \<notin> set f \<Longrightarrow> CHR ''_'' \<notin> set f \<Longrightarrow>
   pattern_compare (f @ p) s \<longleftrightarrow> (\<exists>a t. s = a @ t \<and> map lower a = map lower f \<and> pattern_compare p t)"
proof (induction f arbitrary: s)
  case Nil
  then show ?case by auto
next
  case (Cons x f)
  then have wf: "CHR ''%'' \<notin> set f" "CHR ''_'' \<notin> set f" and x: "x \<noteq> CHR ''%''" "x \<noteq> CHR ''_''"
    by auto
  show ?case
  proof (cases s)
    case Nil
    then show ?thesis using x by auto
  next
    case (Cons c cs)
    have "pattern_compare ((x # f) @ p) (c # cs) \<longleftrightarrow> lower x = lower c \<and> pattern_compare (f @ p) cs"
      using x by simp
    also have "\<dots> \<longleftrightarrow> lower x = lower c
        \<and> (\<exists>a t. cs = a @ t \<and> map lower a = map lower f \<and> pattern_compare p t)"
      using Cons.IH[OF wf] by simp
    also have "\<dots> \<longleftrightarrow> (\<exists>a t. c # cs = a @ t \<and> map lower a = map lower (x # f) \<and> pattern_compare p t)"
      (is "?L \<longleftrightarrow> ?R")
    proof
      assume ?L
      then obtain a t where "cs = a @ t" "map lower a = map lower f" "pattern_compare p t"
        "lower x = lower c" by blast
      then show ?R by (intro exI[of _ "c # a"] exI[of _ t]) auto
    next
      assume ?R
      then obtain a t where h: "c # cs = a @ t" "map lower a = map lower (x # f)"
        "pattern_compare p t" by blast
      from h obtain a' where "a = c # a'" "map lower a' = map lower f" "cs = a' @ t"
        "lower c = lower x"
        by (cases a) auto
      with h show ?L by auto
    qed
    finally show ?thesis using Cons by simp
  qed
qed

lemma pattern_compare_contains:
  assumes "CHR ''%'' \<notin> set f" and "CHR ''_'' \<notin> set f"
  shows "pattern_compare (''%'' @ f @ ''%'') s \<longleftrightarrow> sublist (map lower f) (map lower s)"
proof -
  have "pattern_compare (''%'' @ f @ ''%'') s \<longleftrightarrow> (\<exists>a t. s = a @ t \<and> pattern_compare (f @ ''%'') t)"
    using pattern_compare_percent[of "f @ ''%''" s] by simp
  also have "\<dots> \<longleftrightarrow> (\<exists>a b u. s = a @ b @ u \<and> map lower b = map lower f)"
    using pattern_compare_literal[OF assms, of "''%''"] by auto
  also have "\<dots> \<longleftrightarrow> sublist (map lower f) (map lower s)"
  proof
    assume "\<exists>a b u. s = a @ b @ u \<and> map lower b = map lower f"
    then obtain a b u where "s = a @ b @ u" "map lower b = map lower f" by blast
    then have "map lower s = map lower a @ map lower f @ map lower u" by simp
    then show "sublist (map lower f) (map lower s)" by (metis sublist_appendI)
  next
    assume "sublist (map lower f) (map lower s)"
    then obtain ps ss where "map lower s = ps @ map lower f @ ss" by (auto simp: sublist_def)
    then show "\<exists>a b u. s = a @ b @ u \<and> map lower b = map lower f"
      by (metis append_eq_map_conv)
  qed
  finally show ?thesis .
qed

text \<open>The operator's folding of case is the contract's sameness of letters.\<close>

lemma of_char_lower:
  "(of_char (lower c) :: nat) = (if 65 \<le> (of_char c :: nat) \<and> (of_char c :: nat) \<le> 90
                                  then of_char c + 32 else of_char c)"
proof (cases "65 \<le> (of_char c :: nat) \<and> (of_char c :: nat) \<le> 90")
  case True
  then have "(of_char c :: nat) + 32 < 256" by simp
  then have "(of_char (char_of ((of_char c :: nat) + 32)) :: nat) = of_char c + 32"
    by (simp add: of_char_of)
  with True show ?thesis by (simp add: lower_def Let_def)
next
  case False
  then show ?thesis by (auto simp: lower_def Let_def)
qed

lemma lower_same_letter: "(lower a = lower b) = same_letter a b"
proof -
  have inj: "\<And>x y :: char. ((of_char x :: nat) = of_char y) = (x = y)"
    by simp
  have "(lower a = lower b) = ((of_char (lower a) :: nat) = of_char (lower b))"
    by (simp only: inj)
  also have "\<dots> = same_letter a b"
    unfolding of_char_lower same_letter_def
    using inj[of a b] by (auto split: if_splits)
  finally show ?thesis .
qed

lemma starts_with_prefix: "starts_with f t = prefix (map lower f) (map lower t)"
  by (induction f t rule: starts_with.induct) (simp_all add: lower_same_letter)

lemma contains_sublist: "contains f t = sublist (map lower f) (map lower t)"
proof (induction t)
  case Nil
  show ?case by (cases f) simp_all
next
  case (Cons b t)
  have "contains f (b # t) = (prefix (map lower f) (map lower (b # t)) \<or> sublist (map lower f) (map lower t))"
    using Cons by (simp add: starts_with_prefix)
  also have "\<dots> = sublist (map lower f) (map lower (b # t))"
    by (simp add: sublist_Cons_right)
  finally show ?case .
qed

lemma utf8_length_append [simp]: "utf8_length (a @ b) = utf8_length a + utf8_length b"
  by (simp add: utf8_length_def)

lemma utf8_length_Cons [simp]:
  "utf8_length (c # s) = (if (of_char c :: nat) < 128 then 1 else 2) + utf8_length s"
  by (simp add: utf8_length_def)

lemma utf8_length_Nil [simp]: "utf8_length [] = 0"
  by (simp add: utf8_length_def)

lemma c_str_no_nul: "CHR 0x00 \<notin> set s \<Longrightarrow> c_str s = s"
  by (auto simp: c_str_def takeWhile_eq_all_conv)

lemma like_plain:
  assumes "plain f"
  shows "like (CHR ''%'' # f @ ''%'') n = Inr (contains f (c_str n))"
proof -
  from assms have w: "CHR ''%'' \<notin> set f" "CHR ''_'' \<notin> set f" and z: "CHR 0x00 \<notin> set f"
    and l: "utf8_length f + 2 \<le> 50000"
    by (simp_all add: plain_def)
  have len: "\<not> utf8_length (CHR ''%'' # f @ ''%'') > 50000"
    using l by simp
  have "CHR 0x00 \<notin> set (CHR ''%'' # f @ ''%'')"
    using z by simp
  then have c: "c_str (CHR ''%'' # f @ ''%'') = CHR ''%'' # f @ ''%''"
    by (rule c_str_no_nul)
  have "pattern_compare (CHR ''%'' # f @ ''%'') (c_str n) = contains f (c_str n)"
    using pattern_compare_contains[OF w, of "c_str n"] by (simp add: contains_sublist)
  then show ?thesis
    unfolding like_def c using len by simp
qed

lemma scan_filter:
  "(\<And>row. row \<in> set rows \<Longrightarrow> where_all row query = Inr (P row)) \<Longrightarrow>
   scan query rows = Inr (filter P rows)"
  by (induction rows) auto

lemma holds_price_min: "holds (i, n, p, o') (PriceGE (bind_float lo)) = Inr (float_le lo (Num p))"
  by (cases lo) (simp_all add: bind_float_def)

lemma holds_price_max: "holds (i, n, p, o') (PriceLE (bind_float hi)) = Inr (float_le (Num p) hi)"
  by (cases hi) (simp_all add: bind_float_def)

lemma contains_empty [simp]: "contains [] t"
  by (cases t) simp_all

lemma query_holds:
  assumes "plain_filter name"
  shows "where_all row
     ((case name of Some f \<Rightarrow> if f \<noteq> [] then [] @ [NameLike (''%'' @ f @ ''%'')] else [] | None \<Rightarrow> [])
      @ (case lo of Some x \<Rightarrow> [PriceGE (bind_float x)] | None \<Rightarrow> [])
      @ (case hi of Some x \<Rightarrow> [PriceLE (bind_float x)] | None \<Rightarrow> []))
   = Inr (spec_matches name lo hi row)"
proof -
  obtain i n p o' where row: "row = (i, n, p, o')" by (cases row) auto
  have nm: "like (CHR ''%'' # f @ ''%'') n = Inr (contains f (c_str n))" if "name = Some f" for f
    using assms that like_plain[of f n] by (simp add: plain_filter_def)
  show ?thesis
    unfolding row
    by (cases name; cases lo; cases hi)
       (auto simp: spec_matches_def nm holds_price_min holds_price_max)
qed

lemma search_items_rows:
  assumes "plain_filter name"
  shows "search_items s name lo hi =
     Inr \<lparr>found_items = map row_to_Item (filter (spec_matches name lo hi) (items s)),
          filters = (name, lo, hi),
          count = length (filter (spec_matches name lo hi) (items s))\<rparr>"
proof -
  have "scan
     ((case name of Some f \<Rightarrow> if f \<noteq> [] then [] @ [NameLike (''%'' @ f @ ''%'')] else [] | None \<Rightarrow> [])
      @ (case lo of Some x \<Rightarrow> [PriceGE (bind_float x)] | None \<Rightarrow> [])
      @ (case hi of Some x \<Rightarrow> [PriceLE (bind_float x)] | None \<Rightarrow> [])) (items s)
    = Inr (filter (spec_matches name lo hi) (items s))"
    by (rule scan_filter) (rule query_holds[OF assms])
  then show ?thesis
    by (cases name; cases lo; cases hi)
       (simp_all add: search_items_def select_where_def connect_def Let_def)
qed

lemma row_to_Item_as_item: "row_to_Item = as_item"
  by (rule ext) (auto simp: row_to_Item_def as_item_def split: prod.splits option.splits)

lemma utf8_length_replicate_a: "utf8_length (replicate k CHR ''a'') = k"
  by (induction k) simp_all


lemma scan_error:
  "rows \<noteq> [] \<Longrightarrow> where_all (hd rows) query = Inl e \<Longrightarrow> scan query rows = Inl e"
  by (cases rows) simp_all

text \<open>
  A name whose pattern is longer than the operator accepts ends the search with
  \<^verbatim>\<open>OperationalError\<close> as soon as there is a row to try it on.
\<close>

lemma search_items_too_long:
  assumes "utf8_length f + 2 > 50000" and "items s \<noteq> []"
  shows "search_items s (Some f) price_min price_max = Inl OperationalError"
proof -
  from assms(1) have ne: "f \<noteq> []"
    by auto
  have "like (CHR ''%'' # f @ ''%'') n = Inl OperationalError" for n
    using assms(1) by (simp add: like_def)
  then have "where_all (hd (items s)) (NameLike (CHR ''%'' # f @ ''%'') # q) = Inl OperationalError" for q
    by (cases "hd (items s)") simp
  then have "scan (NameLike (CHR ''%'' # f @ ''%'') # q) (items s) = Inl OperationalError" for q
    using assms(2) by (intro scan_error)
  then show ?thesis
    using ne
    by (cases price_min; cases price_max)
       (simp_all add: search_items_def select_where_def connect_def Let_def)
qed

text \<open>A search by name alone, for any name within the limit, in the operator's terms.\<close>

lemma search_items_by_pattern:
  assumes "f \<noteq> []" and "utf8_length f + 2 \<le> 50000"
  shows "search_items s (Some f) None None =
     Inr \<lparr>found_items =
            map row_to_Item
              (filter (\<lambda>row. pattern_compare (c_str (CHR ''%'' # f @ ''%'')) (c_str (fst (snd row))))
                 (items s)),
          filters = (Some f, None, None),
          count =
            length
              (filter (\<lambda>row. pattern_compare (c_str (CHR ''%'' # f @ ''%'')) (c_str (fst (snd row))))
                 (items s))\<rparr>"
proof -
  have "where_all row [NameLike (CHR ''%'' # f @ ''%'')]
      = Inr (pattern_compare (c_str (CHR ''%'' # f @ ''%'')) (c_str (fst (snd row))))" for row
    using assms(2) by (cases row) (simp add: like_def)
  then have "scan [NameLike (CHR ''%'' # f @ ''%'')] (items s)
      = Inr (filter (\<lambda>row. pattern_compare (c_str (CHR ''%'' # f @ ''%'')) (c_str (fst (snd row))))
               (items s))"
    by (intro scan_filter)
  then show ?thesis
    using assms(1) by (simp add: search_items_def select_where_def connect_def Let_def)
qed

lemma long_name_length: "utf8_length long_name = 49999"
  unfolding long_name_def by (rule utf8_length_replicate_a)

text \<open>
  C1. For a name filter that is absent or plain, \<^verbatim>\<open>GET /search/\<close> returns exactly the
  rows that pass every filter given, as the contract reads them; a row is returned when
  both bounds equal its price; with no filter every row is returned.
\<close>

theorem search_items_conjunctive:
  assumes "plain_filter name"
  shows "search_items s name price_min price_max =
           Inr \<lparr>found_items = map as_item (filter (spec_matches name price_min price_max) (items s)),
                filters = (name, price_min, price_max),
                count = length (filter (spec_matches name price_min price_max) (items s))\<rparr>
       \<and> (\<forall>row \<in> set (items s).
            \<exists>r. search_items s None (Some (Num (fst (snd (snd row))))) (Some (Num (fst (snd (snd row)))))
                   = Inr r
                \<and> as_item row \<in> set (found_items r))
       \<and> search_items s None None None =
           Inr \<lparr>found_items = map as_item (items s), filters = (None, None, None),
                count = length (items s)\<rparr>"
proof -
  have n: "plain_filter None"
    by (simp add: plain_filter_def)
  have a: "search_items s name price_min price_max =
           Inr \<lparr>found_items = map as_item (filter (spec_matches name price_min price_max) (items s)),
                filters = (name, price_min, price_max),
                count = length (filter (spec_matches name price_min price_max) (items s))\<rparr>"
    by (simp add: search_items_rows[OF assms] row_to_Item_as_item)
  have refl_le: "ext_le p p" for p
    by (cases p) simp_all
  have b: "\<exists>r. search_items s None (Some (Num (fst (snd (snd row))))) (Some (Num (fst (snd (snd row)))))
                   = Inr r
                \<and> as_item row \<in> set (found_items r)"
    if "row \<in> set (items s)" for row
  proof -
    have "spec_matches None (Some (Num (fst (snd (snd row))))) (Some (Num (fst (snd (snd row))))) row"
      by (cases row) (simp add: spec_matches_def refl_le)
    with that show ?thesis
      by (simp add: search_items_rows[OF n] row_to_Item_as_item)
  qed
  have "filter (spec_matches None None None) (items s) = items s"
    by (simp add: spec_matches_def split_def)
  then have c: "search_items s None None None =
           Inr \<lparr>found_items = map as_item (items s), filters = (None, None, None),
                count = length (items s)\<rparr>"
    by (simp add: search_items_rows[OF n] row_to_Item_as_item)
  from a b c show ?thesis by blast
qed

theorem search_items_conjunctive_witness:
  "plain_filter (Some ''MO'')
   \<and> search_items seeded_store (Some ''MO'') (Some (Num (Finite 100))) (Some (Num (Finite 299.99)))
       = Inr \<lparr>found_items =
                 [\<lparr>id_item = Some 4, name_item = ''Monitor'', price_item = Num (Finite 299.99),
                   is_offer_item = Some False\<rparr>],
              filters = (Some ''MO'', Some (Num (Finite 100)), Some (Num (Finite 299.99))),
              count = 1\<rparr>
   \<and> (2, ''Mouse'', Finite 25.50, Some 0) \<in> set (items seeded_store)
   \<and> \<lparr>id_item = Some 2, name_item = ''Mouse'', price_item = Num (Finite 25.50),
        is_offer_item = Some False\<rparr>
       \<in> set (found_items (projr (search_items seeded_store None
                 (Some (Num (Finite 25.50))) (Some (Num (Finite 25.50))))))
   \<and> count (projr (search_items seeded_store None None None)) = 5"
proof -
  have p: "plain_filter (Some ''MO'')"
    by (simp add: plain_filter_def plain_def)
  have f: "filter (spec_matches (Some ''MO'') (Some (Num (Finite 100))) (Some (Num (Finite 299.99))))
             (items seeded_store)
      = [(4, ''Monitor'', Finite 299.99, Some 0)]"
    by code_simp
  have i: "as_item (4, ''Monitor'', Finite 299.99, Some 0)
      = \<lparr>id_item = Some 4, name_item = ''Monitor'', price_item = Num (Finite 299.99),
         is_offer_item = Some False\<rparr>"
    by (simp add: as_item_def)
  have i2: "as_item (2, ''Mouse'', Finite 25.50, Some 0)
      = \<lparr>id_item = Some 2, name_item = ''Mouse'', price_item = Num (Finite 25.50),
         is_offer_item = Some False\<rparr>"
    by (simp add: as_item_def)
  have m: "(2, ''Mouse'', Finite 25.50, Some 0) \<in> set (items seeded_store)"
    by (simp add: seeded_store_def)
  have l: "length (items seeded_store) = 5"
    by (simp add: seeded_store_def)
  from search_items_conjunctive[OF p, of seeded_store "Some (Num (Finite 100))" "Some (Num (Finite 299.99))"] f i
  have 1: "search_items seeded_store (Some ''MO'') (Some (Num (Finite 100))) (Some (Num (Finite 299.99)))
       = Inr \<lparr>found_items =
                 [\<lparr>id_item = Some 4, name_item = ''Monitor'', price_item = Num (Finite 299.99),
                   is_offer_item = Some False\<rparr>],
              filters = (Some ''MO'', Some (Num (Finite 100)), Some (Num (Finite 299.99))),
              count = 1\<rparr>"
    by simp
  from search_items_conjunctive[OF p, of seeded_store] m
  obtain r where r: "search_items seeded_store None (Some (Num (Finite 25.50))) (Some (Num (Finite 25.50)))
        = Inr r"
      "as_item (2, ''Mouse'', Finite 25.50, Some 0) \<in> set (found_items r)"
    by fastforce
  from r i2 have 2: "\<lparr>id_item = Some 2, name_item = ''Mouse'', price_item = Num (Finite 25.50),
        is_offer_item = Some False\<rparr>
       \<in> set (found_items (projr (search_items seeded_store None
                 (Some (Num (Finite 25.50))) (Some (Num (Finite 25.50))))))"
    by simp
  from search_items_conjunctive[OF p, of seeded_store] l
  have 3: "count (projr (search_items seeded_store None None None)) = 5"
    by simp
  from p 1 m 2 3 show ?thesis by blast
qed

text \<open>
  The name filter is not the case-sensitive containment of the specification:
  \<^verbatim>\<open>name=mo\<close> with bounds 100 and 300 returns \<^verbatim>\<open>Monitor\<close>. And a name of 49999 bytes
  (\<^verbatim>\<open>long_name\<close>) makes the statement fail with \<^verbatim>\<open>OperationalError\<close>, which the handler does not catch.
\<close>

theorem search_items_counterexample:
  "search_items seeded_store (Some ''mo'') (Some (Num (Finite 100))) (Some (Num (Finite 300)))
     = Inr \<lparr>found_items =
               [\<lparr>id_item = Some 4, name_item = ''Monitor'', price_item = Num (Finite 299.99),
                 is_offer_item = Some False\<rparr>],
            filters = (Some ''mo'', Some (Num (Finite 100)), Some (Num (Finite 300))),
            count = 1\<rparr>
   \<and> \<not> sublist ''mo'' ''Monitor''
   \<and> search_items seeded_store (Some long_name) None None = Inl OperationalError"
proof -
  have 1: "search_items seeded_store (Some ''mo'') (Some (Num (Finite 100))) (Some (Num (Finite 300)))
     = Inr \<lparr>found_items =
               [\<lparr>id_item = Some 4, name_item = ''Monitor'', price_item = Num (Finite 299.99),
                 is_offer_item = Some False\<rparr>],
            filters = (Some ''mo'', Some (Num (Finite 100)), Some (Num (Finite 300))),
            count = 1\<rparr>"
  proof -
    have p: "plain_filter (Some ''mo'')"
      by (simp add: plain_filter_def plain_def)
    have "filter (spec_matches (Some ''mo'') (Some (Num (Finite 100))) (Some (Num (Finite 300))))
            (items seeded_store)
        = [(4, ''Monitor'', Finite 299.99, Some 0)]"
      by code_simp
    then show ?thesis
      by (simp add: search_items_rows[OF p] row_to_Item_def)
  qed
  have 2: "\<not> sublist ''mo'' ''Monitor''"
    by code_simp
  have "utf8_length long_name + 2 > 50000"
    by (simp add: long_name_length)
  moreover have "items seeded_store \<noteq> []"
    by (simp add: seeded_store_def)
  ultimately have 3: "search_items seeded_store (Some long_name) None None = Inl OperationalError"
    by (rule search_items_too_long)
  from 1 2 3 show ?thesis by blast
qed

text \<open>
  C2. For a plain name filter, the rows returned are those whose name, read up to its
  first NUL, contains the filter when the case of ASCII letters is disregarded.
\<close>

theorem name_filter_ignores_case:
  assumes "plain f"
  shows "search_items s (Some f) None None =
           Inr \<lparr>found_items = map as_item (filter (\<lambda>row. contains f (c_str (fst (snd row)))) (items s)),
                filters = (Some f, None, None),
                count = length (filter (\<lambda>row. contains f (c_str (fst (snd row)))) (items s))\<rparr>"
proof -
  have p: "plain_filter (Some f)"
    using assms by (simp add: plain_filter_def)
  have "spec_matches (Some f) None None = (\<lambda>row. contains f (c_str (fst (snd row))))"
    by (rule ext) (simp add: spec_matches_def split_def)
  then show ?thesis
    by (simp add: search_items_rows[OF p] row_to_Item_as_item)
qed

theorem name_filter_ignores_case_witness:
  "plain ''laptop''
   \<and> search_items seeded_store (Some ''laptop'') None None
       = Inr \<lparr>found_items =
                 [\<lparr>id_item = Some 1, name_item = ''Laptop'', price_item = Num (Finite 999.99),
                   is_offer_item = Some True\<rparr>],
              filters = (Some ''laptop'', None, None),
              count = 1\<rparr>
   \<and> plain ''top''
   \<and> search_items nul_name_store (Some ''top'') None None
       = Inr \<lparr>found_items =
                 [\<lparr>id_item = Some 2, name_item = ''Desktop'', price_item = Num (Finite 20),
                   is_offer_item = Some True\<rparr>],
              filters = (Some ''top'', None, None),
              count = 1\<rparr>"
proof -
  have w: "plain ''laptop''" by (simp add: plain_def)
  have f: "filter (\<lambda>row. contains ''laptop'' (c_str (fst (snd row)))) (items seeded_store)
      = [(1, ''Laptop'', Finite 999.99, Some 1)]"
    by code_simp
  have i: "as_item (1, ''Laptop'', Finite 999.99, Some 1)
      = \<lparr>id_item = Some 1, name_item = ''Laptop'', price_item = Num (Finite 999.99),
         is_offer_item = Some True\<rparr>"
    by (simp add: as_item_def)
  from name_filter_ignores_case[OF w, of seeded_store] f i
  have 1: "search_items seeded_store (Some ''laptop'') None None
       = Inr \<lparr>found_items =
                 [\<lparr>id_item = Some 1, name_item = ''Laptop'', price_item = Num (Finite 999.99),
                   is_offer_item = Some True\<rparr>],
              filters = (Some ''laptop'', None, None),
              count = 1\<rparr>"
    by simp
  have w2: "plain ''top''" by (simp add: plain_def)
  have f2: "filter (\<lambda>row. contains ''top'' (c_str (fst (snd row)))) (items nul_name_store)
      = [(2, ''Desktop'', Finite 20, Some 1)]"
    by code_simp
  have i2: "as_item (2, ''Desktop'', Finite 20, Some 1)
      = \<lparr>id_item = Some 2, name_item = ''Desktop'', price_item = Num (Finite 20),
         is_offer_item = Some True\<rparr>"
    by (simp add: as_item_def)
  from name_filter_ignores_case[OF w2, of nul_name_store] f2 i2
  have 2: "search_items nul_name_store (Some ''top'') None None
       = Inr \<lparr>found_items =
                 [\<lparr>id_item = Some 2, name_item = ''Desktop'', price_item = Num (Finite 20),
                   is_offer_item = Some True\<rparr>],
              filters = (Some ''top'', None, None),
              count = 1\<rparr>"
    by simp
  from w 1 w2 2 show ?thesis by blast
qed

text \<open>
  The match is not case-sensitive: \<^verbatim>\<open>/search/?name=laptop\<close>, the example the source
  gives, finds the row named \<^verbatim>\<open>Laptop\<close>. Nor is it containment when the filter holds
  a wildcard or a NUL: \<^verbatim>\<open>m_u\<close> finds \<^verbatim>\<open>Mouse\<close>, and a filter that is one NUL finds
  every row.
\<close>

theorem name_filter_case_sensitive_counterexample:
  "(1, ''Laptop'', Finite 999.99, Some 1) \<in> set (items seeded_store)
   \<and> search_items seeded_store (Some ''laptop'') None None
       = Inr \<lparr>found_items =
                 [\<lparr>id_item = Some 1, name_item = ''Laptop'', price_item = Num (Finite 999.99),
                   is_offer_item = Some True\<rparr>],
              filters = (Some ''laptop'', None, None),
              count = 1\<rparr>
   \<and> \<not> sublist ''laptop'' ''Laptop''
   \<and> search_items seeded_store (Some ''m_u'') None None
       = Inr \<lparr>found_items =
                 [\<lparr>id_item = Some 2, name_item = ''Mouse'', price_item = Num (Finite 25.50),
                   is_offer_item = Some False\<rparr>],
              filters = (Some ''m_u'', None, None),
              count = 1\<rparr>
   \<and> \<not> sublist (map lower ''m_u'') (map lower ''Mouse'')
   \<and> count (projr (search_items seeded_store (Some [CHR 0x00]) None None)) = 5
   \<and> \<not> sublist [CHR 0x00] ''Laptop''"
proof -
  have p: "plain_filter (Some ''laptop'')"
    by (simp add: plain_filter_def plain_def)
  have "filter (spec_matches (Some ''laptop'') None None) (items seeded_store)
      = [(1, ''Laptop'', Finite 999.99, Some 1)]"
    by code_simp
  then have 1: "search_items seeded_store (Some ''laptop'') None None
       = Inr \<lparr>found_items =
                 [\<lparr>id_item = Some 1, name_item = ''Laptop'', price_item = Num (Finite 999.99),
                   is_offer_item = Some True\<rparr>],
              filters = (Some ''laptop'', None, None),
              count = 1\<rparr>"
    by (simp add: search_items_rows[OF p] row_to_Item_def)
  have 2: "(1, ''Laptop'', Finite 999.99, Some 1) \<in> set (items seeded_store)"
    by (simp add: seeded_store_def)
  have 3: "\<not> sublist ''laptop'' ''Laptop''"
    by code_simp
  have "filter (\<lambda>row. pattern_compare (c_str (CHR ''%'' # ''m_u'' @ ''%'')) (c_str (fst (snd row))))
          (items seeded_store)
      = [(2, ''Mouse'', Finite 25.50, Some 0)]"
    by code_simp
  then have 4: "search_items seeded_store (Some ''m_u'') None None
       = Inr \<lparr>found_items =
                 [\<lparr>id_item = Some 2, name_item = ''Mouse'', price_item = Num (Finite 25.50),
                   is_offer_item = Some False\<rparr>],
              filters = (Some ''m_u'', None, None),
              count = 1\<rparr>"
    by (simp add: search_items_by_pattern row_to_Item_def)
  have 5: "\<not> sublist (map lower ''m_u'') (map lower ''Mouse'')"
    by code_simp
  have "filter (\<lambda>row. pattern_compare (c_str (CHR ''%'' # [CHR 0x00] @ ''%'')) (c_str (fst (snd row))))
          (items seeded_store)
      = items seeded_store"
    by code_simp
  then have "search_items seeded_store (Some [CHR 0x00]) None None
       = Inr \<lparr>found_items = map row_to_Item (items seeded_store),
              filters = (Some [CHR 0x00], None, None),
              count = length (items seeded_store)\<rparr>"
    by (simp add: search_items_by_pattern)
  then have 6: "count (projr (search_items seeded_store (Some [CHR 0x00]) None None)) = 5"
    by (simp add: seeded_store_def)
  have 7: "\<not> sublist [CHR 0x00] ''Laptop''"
    by code_simp
  from 1 2 3 4 5 6 7 show ?thesis by blast
qed

subsection \<open>Fetching an item\<close>

lemma api_tutorial_get_item:
  "dispatch api_tutorial_routes GET [''items'', seg] = (if seg = [] then Handler ''list_items'' else MethodNotAllowed)"
  by (simp add: dispatch_def api_tutorial_routes_def path_matches_def)

lemma test_py_get_item:
  "seg \<noteq> [] \<Longrightarrow> dispatch test_py_routes GET [''items'', seg] = Handler ''read_item''"
  by (simp add: dispatch_def test_py_routes_def path_matches_def)

lemma read_item_test_py_echoes: "read_item_test_py s item_id q = (Inr (item_id, q), s)"
  by (simp add: read_item_test_py_def)

text \<open>
  C5. \<^verbatim>\<open>test.py\<close> serves \<^verbatim>\<open>GET /items/{item_id}\<close> and echoes \<^verbatim>\<open>q\<close>;
  \<^verbatim>\<open>api_tutorial.py\<close> has no such route, so the request meets only the templates of
  \<^verbatim>\<open>PUT\<close> and \<^verbatim>\<open>DELETE\<close> and is answered 405.
\<close>

theorem api_tutorial_fetch_route_missing:
  "dispatch api_tutorial_routes GET [''items'', ''1''] = MethodNotAllowed
   \<and> dispatch test_py_routes GET [''items'', ''1''] = Handler ''read_item''
   \<and> fst (read_item_test_py seeded_store 1 (Some ''abc'')) = Inr (1, Some ''abc'')"
  by (simp add: dispatch_def api_tutorial_routes_def test_py_routes_def path_matches_def read_item_test_py_def)

end
